theory Spec2Isabelle
  imports Main "HOL-Library.AList" "HOL-Library.Multiset" "HOL-Library.Sublist"
begin

section \<open>Python values shared by the models\<close>

text \<open>
  The exceptions that the modelled functions can raise. A function that can raise returns
  a sum, with \<open>Inl\<close> for the exception.
\<close>

datatype pyerror = NameError | ValueError | AssertionError | IndexError | AttributeError
  | KeyError | TypeError | BackendError

text \<open>
  A Python \<open>dict\<close> keeps its keys in insertion order: \<open>d[k] = v\<close> replaces the value
  of a key that is present, at the position the key already has, and appends a new key.
  \<open>d.get(k)\<close> is \<open>map_of d k\<close>.
\<close>

type_synonym ('k, 'v) pydict = "('k \<times> 'v) list"

definition dict_set :: "('k, 'v) pydict \<Rightarrow> 'k \<Rightarrow> 'v \<Rightarrow> ('k, 'v) pydict" where
  "dict_set d k v = AList.update k v d"

section \<open>lang/schema/types.py: the type rule registry\<close>

text \<open>
  The values that occur as argument types: a Python class (\<open>isinstance(arg, type)\<close>), a
  schema prototype object (\<open>isinstance(arg, so.ProtoObject)\<close>), or any other value. The
  result of a rule is an object or a \<open>str\<close> naming a schema object.
\<close>

datatype tyval = PyClass string | ProtoObj string | PyOther string

datatype rule_result = ResObj tyval | ResName string

text \<open>
  The class hierarchy and the schema are not part of types.py. The model takes them as
  they are read: for a Python class the classes that follow it in its \<open>__mro__\<close>, for a
  prototype its ancestors by schema inheritance, and the lookup \<open>schema.get\<close>.
\<close>

record type_env =
  class_mro :: "string \<Rightarrow> string list"
  proto_ancestors :: "string \<Rightarrow> string list"
  schema_get :: "string \<Rightarrow> tyval option"

text \<open>
  Python's \<open>issubclass(arg, sig_arg)\<close> for a class \<open>arg\<close>: \<open>sig_arg\<close> is a class of
  \<open>arg.__mro__\<close>, which starts with \<open>arg\<close> itself.
\<close>

definition py_issubclass :: "type_env \<Rightarrow> string \<Rightarrow> tyval \<Rightarrow> bool" where
  "py_issubclass env c sig_arg =
     (case sig_arg of PyClass d \<Rightarrow> d \<in> set (c # class_mro env c) | _ \<Rightarrow> False)"

text \<open>
  Modelled from the spec: \<open>ProtoObject.issubclass\<close> is not under src/. A prototype
  matches a declared type when it is that type or a subtype of it by schema inheritance.
\<close>

definition proto_issubclass :: "type_env \<Rightarrow> string \<Rightarrow> tyval \<Rightarrow> bool" where
  "proto_issubclass env p sig_arg =
     (case sig_arg of ProtoObj q \<Rightarrow> q \<in> set (p # proto_ancestors env p) | _ \<Rightarrow> False)"

type_synonym sig_rules = "(tyval list, rule_result) pydict"

type_synonym rules = "(string, (nat, sig_rules) pydict) pydict"

text \<open>
  \<^verbatim>\<open>cls.rules.setdefault(op, {}).setdefault(len(args), {})[tuple(args)] = result\<close>
\<close>

definition add_rule :: "rules \<Rightarrow> string \<Rightarrow> tyval list \<Rightarrow> rule_result \<Rightarrow> rules" where
  "add_rule rules op args result =
     (let by_arity = (case map_of rules op of None \<Rightarrow> [] | Some d \<Rightarrow> d);
          sigs = (case map_of by_arity (length args) of None \<Rightarrow> [] | Some s \<Rightarrow> s)
      in dict_set rules op (dict_set by_arity (length args) (dict_set sigs args result)))"

text \<open>
  The test of one position: the signature is abandoned when
  \<^verbatim>\<open>not (isinstance(arg, type) and issubclass(arg, sig_arg)) and
     not (isinstance(arg, so.ProtoObject) and arg.issubclass(sig_arg))\<close>.
\<close>

definition arg_matches :: "type_env \<Rightarrow> tyval \<Rightarrow> tyval \<Rightarrow> bool" where
  "arg_matches env arg sig_arg =
     (case arg of
        PyClass c \<Rightarrow> py_issubclass env c sig_arg
      | ProtoObj p \<Rightarrow> proto_issubclass env p sig_arg
      | PyOther _ \<Rightarrow> False)"

text \<open>
  The inner loop \<^verbatim>\<open>for i, arg in enumerate(args): sig_arg = sig[i] ...\<close>: \<open>Inr False\<close> is
  the \<open>break\<close>, \<open>Inr True\<close> the \<open>else\<close> branch of the loop, and reading \<open>sig[i]\<close> past the
  end of the signature raises IndexError.
\<close>

fun sig_matches :: "type_env \<Rightarrow> tyval list \<Rightarrow> tyval list \<Rightarrow> pyerror + bool" where
  "sig_matches env sg [] = Inr True"
| "sig_matches env [] (arg # args) = Inl IndexError"
| "sig_matches env (sig_arg # sg) (arg # args) =
     (if arg_matches env arg sig_arg then sig_matches env sg args else Inr False)"

text \<open>The outer loop \<^verbatim>\<open>for sig, result in rules.items()\<close>, left at the first match.\<close>

fun scan_rules :: "type_env \<Rightarrow> sig_rules \<Rightarrow> tyval list \<Rightarrow> pyerror + rule_result option" where
  "scan_rules env [] args = Inr None"
| "scan_rules env ((sg, result) # rest) args =
     (case sig_matches env sg args of
        Inl e \<Rightarrow> Inl e
      | Inr True \<Rightarrow> Inr (Some result)
      | Inr False \<Rightarrow> scan_rules env rest args)"

text \<open>
  \<^verbatim>\<open>if match and match.__class__ is str: match = schema.get(match)\<close>: a non-empty name is
  looked up, everything else is returned as it is.
\<close>

definition resolve_match :: "type_env \<Rightarrow> rule_result option \<Rightarrow> rule_result option" where
  "resolve_match env m =
     (case m of
        None \<Rightarrow> None
      | Some (ResObj t) \<Rightarrow> Some (ResObj t)
      | Some (ResName n) \<Rightarrow>
          (if n = [] then Some (ResName n) else map_option ResObj (schema_get env n)))"

text \<open>
  \<open>get_result\<close>: an empty or missing dict at either level is falsy and skips the scan.
\<close>

definition get_result ::
  "type_env \<Rightarrow> rules \<Rightarrow> string \<Rightarrow> tyval list \<Rightarrow> pyerror + rule_result option" where
  "get_result env rules op args =
     (let found =
        (case map_of rules op of
           None \<Rightarrow> Inr None
         | Some by_arity \<Rightarrow>
             (if by_arity = [] then Inr None
              else (case map_of by_arity (length args) of
                      None \<Rightarrow> Inr None
                    | Some sigs \<Rightarrow> (if sigs = [] then Inr None else scan_rules env sigs args))))
      in (case found of Inl e \<Rightarrow> Inl e | Inr m \<Rightarrow> Inr (resolve_match env m)))"

text \<open>
  The registry after a sequence of registrations \<open>(op, args, result)\<close>, starting from the
  class attribute \<open>rules = {}\<close>.
\<close>

definition register_all :: "(string \<times> tyval list \<times> rule_result) list \<Rightarrow> rules" where
  "register_all regs = foldl (\<lambda>r (op, args, result). add_rule r op args result) [] regs"

text \<open>
  The registry in the words of the specification: the registrations made for an operator
  and an arity, the distinct signatures among them in the order of their first
  registration, and a signature matching when, at every position, the actual argument
  type is the declared type or a subtype of it.
\<close>

definition registered ::
  "(string \<times> tyval list \<times> rule_result) list \<Rightarrow> string \<Rightarrow> nat \<Rightarrow> (tyval list \<times> rule_result) list" where
  "registered regs op n = map snd (filter (\<lambda>(op', args, result). op' = op \<and> length args = n) regs)"

definition first_occurrences :: "'a list \<Rightarrow> 'a list" where
  "first_occurrences xs = rev (remdups (rev xs))"

definition signature_matches :: "type_env \<Rightarrow> tyval list \<Rightarrow> tyval list \<Rightarrow> bool" where
  "signature_matches env args sg = list_all2 (arg_matches env) args sg"

definition is_type :: "tyval \<Rightarrow> bool" where
  "is_type t = (case t of PyOther v \<Rightarrow> False | _ \<Rightarrow> True)"

definition is_proper_subtype :: "type_env \<Rightarrow> tyval \<Rightarrow> tyval \<Rightarrow> bool" where
  "is_proper_subtype env arg declared =
     (case (arg, declared) of
        (PyClass c, PyClass d) \<Rightarrow> d \<noteq> c \<and> d \<in> set (class_mro env c)
      | (ProtoObj p, ProtoObj q) \<Rightarrow> q \<noteq> p \<and> q \<in> set (proto_ancestors env p)
      | _ \<Rightarrow> False)"

definition spec_position_matches :: "type_env \<Rightarrow> tyval \<Rightarrow> tyval \<Rightarrow> bool" where
  "spec_position_matches env arg declared =
     (is_type arg \<and> (arg = declared \<or> is_proper_subtype env arg declared))"

definition spec_signature_matches :: "type_env \<Rightarrow> tyval list \<Rightarrow> tyval list \<Rightarrow> bool" where
  "spec_signature_matches env args sg =
     (length sg = length args
      \<and> (\<forall>i < length args. spec_position_matches env (args ! i) (sg ! i)))"

definition spec_resolve ::
  "type_env \<Rightarrow> (string \<times> tyval list \<times> rule_result) list \<Rightarrow> string \<Rightarrow> tyval list \<Rightarrow> rule_result option" where
  "spec_resolve env regs op args =
     (let rs = registered regs op (length args)
      in (case find (spec_signature_matches env args) (first_occurrences (map fst rs)) of
            None \<Rightarrow> None
          | Some sg \<Rightarrow> resolve_match env (map_of (rev rs) sg)))"

text \<open>The signatures stored for an operator and an arity, empty when either level is missing.\<close>

definition stored :: "rules \<Rightarrow> string \<Rightarrow> nat \<Rightarrow> sig_rules" where
  "stored r op n =
     (case map_of r op of
        None \<Rightarrow> []
      | Some d \<Rightarrow> (case map_of d n of None \<Rightarrow> [] | Some s \<Rightarrow> s))"

text \<open>
  A class hierarchy for the examples: every class is a subclass of itself, and
  \<open>IntegerType\<close> is a subclass of \<open>NumberType\<close>.
\<close>

definition example_env :: type_env where
  "example_env =
     \<lparr>class_mro = (\<lambda>c. if c = ''IntegerType'' then [''NumberType'', ''object''] else [''object'']),
      proto_ancestors = (\<lambda>p. []),
      schema_get = (\<lambda>n. None)\<rparr>"

definition example_rules :: "(string \<times> tyval list \<times> rule_result) list" where
  "example_rules =
     [(''+'', [PyClass ''IntegerType'', PyClass ''IntegerType''], ResObj (PyClass ''IntegerType'')),
      (''+'', [PyClass ''NumberType'', PyClass ''NumberType''], ResObj (PyClass ''NumberType''))]"


section \<open>server/pgsql/delta.py: PointerMetaCommand.has\_table\<close>

text \<open>
  A link as \<open>has_table\<close> reads it: its name and the answers of the schema model's
  \<open>is_pure_computable()\<close>, \<open>generic()\<close>, \<open>has_user_defined_properties()\<close>,
  \<open>atomic()\<close> and \<open>singular()\<close>. The children of a link in the schema and the table
  type that \<open>types.get_pointer_storage_info\<close> resolves are parameters.
\<close>

record link =
  link_name :: string
  is_pure_computable :: bool
  generic :: bool
  has_user_defined_properties :: bool
  atomic :: bool
  singular :: bool

fun child_needs_table :: "(link \<Rightarrow> string) \<Rightarrow> link list \<Rightarrow> bool" where
  "child_needs_table table_type [] = False"
| "child_needs_table table_type (l # ls) =
     (if \<not> generic l \<and> table_type l = ''link'' then True
      else child_needs_table table_type ls)"

definition has_table :: "(link \<Rightarrow> string) \<Rightarrow> (link \<Rightarrow> link list) \<Rightarrow> link \<Rightarrow> bool" where
  "has_table table_type children l =
     (if is_pure_computable l then False
      else if generic l then
        (if link_name l = ''metamagic.caos.builtins.link'' then True
         else if has_user_defined_properties l then True
         else child_needs_table table_type (children l))
      else (\<not> atomic l \<or> \<not> singular l \<or> has_user_defined_properties l))"

section \<open>server/pgsql/delta.py: AlterRealm.serialize\_ops and execute\<close>













section \<open>server/pgsql/delta.py: UpgradeBackend\<close>

definition BACKEND_FORMAT_VERSION :: nat where
  "BACKEND_FORMAT_VERSION = 30"

subsection \<open>The physical operations used by the upgrade steps\<close>

text \<open>
  Modelled from the spec: the module \<open>dbops\<close> is not under src/. A physical operation
  carries existence conditions that must hold (\<open>conditions\<close>) and that must not hold
  (\<open>neg_conditions\<close>); when they are not met the operation is silently omitted. The
  backend is the part of the physical schema that the modelled steps read and change,
  with the statements that were issued to it.
\<close>

type_synonym qname = "string \<times> string"

text \<open>A \<open>dbops.Column\<close>: its name, its type and whether it is required.\<close>

record column =
  col_name :: string
  col_type :: string
  col_required :: bool

datatype condition =
    CompositeTypeExists qname
  | ColumnExists qname string
  | TableInherits qname qname

datatype alter_op =
    AlterTableAddColumn column
  | AlterTableDropColumn column
  | AlterTableDropParent qname
  | AlterTableAddParent qname

datatype statement = CreateCompositeTypeStmt qname | AlterTableStmt qname "alter_op list"

text \<open>
  A row of the link table as \<open>update_to_version_20\<close> reads it: its id and its default,
  \<open>None\<close> when the column is empty, otherwise the items of the first document that
  \<open>yaml.Language.load\<close> yields for it.
\<close>

record link_row =
  row_id :: nat
  row_default :: "string list option"

record pg_backend =
  composite_types :: "qname list"
  columns :: "(qname \<times> string) list"
  parents :: "(qname \<times> qname) list"
  link_rows :: "link_row list"
  issued :: "statement list"

datatype guarded_op =
    CreateCompositeType qname "condition list" "condition list"
  | AlterTable qname "condition list" "condition list"
      "(alter_op \<times> condition list \<times> condition list) list"

fun condition_holds :: "pg_backend \<Rightarrow> condition \<Rightarrow> bool" where
  "condition_holds b (CompositeTypeExists n) = (n \<in> set (composite_types b))"
| "condition_holds b (ColumnExists t c) = ((t, c) \<in> set (columns b))"
| "condition_holds b (TableInherits t p) = ((t, p) \<in> set (parents b))"

definition guards_pass :: "pg_backend \<Rightarrow> condition list \<Rightarrow> condition list \<Rightarrow> bool" where
  "guards_pass b conditions neg_conditions =
     (list_all (condition_holds b) conditions
      \<and> list_all (\<lambda>c. \<not> condition_holds b c) neg_conditions)"

fun apply_alter_op :: "qname \<Rightarrow> pg_backend \<Rightarrow> alter_op \<Rightarrow> pg_backend" where
  "apply_alter_op t b (AlterTableAddColumn c) =
     b\<lparr>columns := List.insert (t, col_name c) (columns b)\<rparr>"
| "apply_alter_op t b (AlterTableDropColumn c) =
     b\<lparr>columns := removeAll (t, col_name c) (columns b)\<rparr>"
| "apply_alter_op t b (AlterTableDropParent p) =
     b\<lparr>parents := removeAll (t, p) (parents b)\<rparr>"
| "apply_alter_op t b (AlterTableAddParent p) =
     b\<lparr>parents := List.insert (t, p) (parents b)\<rparr>"

fun issue :: "pg_backend \<Rightarrow> statement \<Rightarrow> pg_backend" where
  "issue b (CreateCompositeTypeStmt n) =
     b\<lparr>composite_types := List.insert n (composite_types b),
       issued := issued b @ [CreateCompositeTypeStmt n]\<rparr>"
| "issue b (AlterTableStmt t ops) =
     (foldl (apply_alter_op t) b ops)\<lparr>issued := issued b @ [AlterTableStmt t ops]\<rparr>"

fun execute_op :: "pg_backend \<Rightarrow> guarded_op \<Rightarrow> pg_backend" where
  "execute_op b (CreateCompositeType n conditions neg_conditions) =
     (if guards_pass b conditions neg_conditions then issue b (CreateCompositeTypeStmt n) else b)"
| "execute_op b (AlterTable t conditions neg_conditions subcommands) =
     (if guards_pass b conditions neg_conditions then
        (let ops = map fst (filter (\<lambda>(op, cs, ncs). guards_pass b cs ncs) subcommands)
         in if ops = [] then b else issue b (AlterTableStmt t ops))
      else b)"

text \<open>\<open>dbops.CommandGroup.execute\<close>: the commands of the group, in the order added.\<close>

definition group_execute :: "pg_backend \<Rightarrow> guarded_op list \<Rightarrow> pg_backend" where
  "group_execute b cmds = foldl execute_op b cmds"

text \<open>
  \<open>update_to_version_2\<close>; the name of \<open>deltadbops.LinkEndpointsType\<close> is a parameter.
\<close>

definition update_to_version_2 :: "qname \<Rightarrow> pg_backend \<Rightarrow> pg_backend" where
  "update_to_version_2 link_endpoints_type b =
     group_execute b
       [CreateCompositeType link_endpoints_type [] [CompositeTypeExists link_endpoints_type]]"

definition update_to_version_3 :: "pg_backend \<Rightarrow> pg_backend" where
  "update_to_version_3 b =
     execute_op b
       (AlterTable (''caos'', ''concept'') []
          [ColumnExists (''caos'', ''concept'') ''is_virtual'']
          [(AlterTableAddColumn
              \<lparr>col_name = ''is_virtual'', col_type = ''boolean'', col_required = True\<rparr>,
            [], [])])"

definition update_to_version_28 :: "pg_backend \<Rightarrow> pg_backend" where
  "update_to_version_28 b =
     group_execute b
       [AlterTable (''caos'', ''event'') [] []
          [(AlterTableDropColumn
              \<lparr>col_name = ''allowed_actions'', col_type = ''int[]'', col_required = False\<rparr>,
            [ColumnExists (''caos'', ''event'') ''allowed_actions''], [])]]"

definition update_to_version_30 :: "pg_backend \<Rightarrow> pg_backend" where
  "update_to_version_30 b =
     group_execute b
       [AlterTable (''caos'', ''link'') [] []
          [(AlterTableAddColumn
              \<lparr>col_name = ''spectargets'', col_type = ''text[]'', col_required = False\<rparr>,
            [], [])],
        AlterTable (''caos'', ''concept'') [] []
          [(AlterTableDropColumn
              \<lparr>col_name = ''is_virtual'', col_type = ''bool'', col_required = False\<rparr>,
            [], [])]]"

text \<open>A backend at format version 30, the state that the steps leave behind.\<close>

definition backend_v30 :: pg_backend where
  "backend_v30 =
     \<lparr>composite_types = [(''caos'', ''link_endpoints_t'')],
      columns = [((''caos'', ''concept''), ''name''), ((''caos'', ''link''), ''name''),
                 ((''caos'', ''link''), ''spectargets'')],
      parents = [],
      link_rows = [],
      issued = []\<rparr>"

subsection \<open>The upgrade chain\<close>

text \<open>
  \<open>update_to_version_20\<close>: for every link row with a default, the loop over the items of
  the default reads \<^verbatim>\<open>yaml.ObjectMeta.get_adapter(proto.DefaultSpec)\<close>. The name \<open>proto\<close>
  is bound nowhere in the module, so the first item of the first such row raises
  NameError; the command group is executed only at the end of the step, so nothing has
  been executed by then. What the step executes when no row has a default with an item
  (the rewritten computable expressions) is the parameter \<open>rest\<close>.
\<close>

definition has_default_item :: "link_row \<Rightarrow> bool" where
  "has_default_item r = (case row_default r of Some (item # items) \<Rightarrow> True | _ \<Rightarrow> False)"

definition update_to_version_20 ::
  "(pg_backend \<Rightarrow> pyerror + pg_backend) \<Rightarrow> pg_backend \<Rightarrow> pyerror + pg_backend" where
  "update_to_version_20 rest b =
     (if list_ex has_default_item (link_rows b) then Inl NameError else rest b)"

text \<open>
  The steps that are not modelled one by one, and the name of
  \<open>deltadbops.LinkEndpointsType\<close>, are parameters.
\<close>

record upgrade_env =
  other_steps :: "nat \<Rightarrow> pg_backend \<Rightarrow> pyerror + pg_backend"
  link_endpoints_type :: qname

text \<open>
  \<^verbatim>\<open>getattr(self, 'update_to_version_{}'.format(version + 1))(context)\<close>: the class defines
  \<open>update_to_version_1\<close> to \<open>update_to_version_30\<close>, any other name raises AttributeError.
\<close>

definition update_to_version :: "upgrade_env \<Rightarrow> nat \<Rightarrow> pg_backend \<Rightarrow> pyerror + pg_backend" where
  "update_to_version env n b =
     (if n = 2 then Inr (update_to_version_2 (link_endpoints_type env) b)
      else if n = 3 then Inr (update_to_version_3 b)
      else if n = 20 then update_to_version_20 (other_steps env 20) b
      else if n = 28 then Inr (update_to_version_28 b)
      else if n = 30 then Inr (update_to_version_30 b)
      else if 1 \<le> n \<and> n \<le> 30 then other_steps env n b
      else Inl AttributeError)"

text \<open>
  The state that \<open>UpgradeBackend.execute\<close> works on: the backend, the format version
  held in the backend info table, and the versions announced by
  \<^verbatim>\<open>print('Upgrading PostgreSQL backend metadata to version {}'.format(version + 1))\<close>.
\<close>

record upgrade_ctx =
  backend :: pg_backend
  format_version :: nat
  announced :: "nat list"

text \<open>
  Modelled from the spec: \<open>dbops.Merge\<close> is not under src/. \<open>update_backend_info\<close> builds
  a merge of the record \<open>format_version = BACKEND_FORMAT_VERSION\<close> into the single-row
  backend info table under the condition \<open>format_version < BACKEND_FORMAT_VERSION\<close>;
  executed, it persists the current version as the new backend format version.
\<close>

definition update_backend_info :: "upgrade_ctx \<Rightarrow> upgrade_ctx" where
  "update_backend_info ctx =
     (if format_version ctx < BACKEND_FORMAT_VERSION
      then ctx\<lparr>format_version := BACKEND_FORMAT_VERSION\<rparr> else ctx)"

text \<open>The body of \<^verbatim>\<open>for version in range(self.actual_version, self.current_version)\<close>.\<close>

fun run_updates :: "upgrade_env \<Rightarrow> nat list \<Rightarrow> upgrade_ctx \<Rightarrow> pyerror + upgrade_ctx" where
  "run_updates env [] ctx = Inr ctx"
| "run_updates env (version # versions) ctx =
     (case update_to_version env (version + 1) (backend ctx) of
        Inl e \<Rightarrow> Inl e
      | Inr db \<Rightarrow>
          run_updates env versions
            (ctx\<lparr>backend := db, announced := announced ctx @ [version + 1]\<rparr>))"

definition upgrade_execute :: "upgrade_env \<Rightarrow> nat \<Rightarrow> upgrade_ctx \<Rightarrow> pyerror + upgrade_ctx" where
  "upgrade_execute env actual_version ctx =
     (case run_updates env [actual_version ..< BACKEND_FORMAT_VERSION] ctx of
        Inl e \<Rightarrow> Inl e
      | Inr ctx' \<Rightarrow> Inr (update_backend_info ctx'))"

text \<open>
  A backend at format version 19 in which one link has a default.
\<close>

definition backend_v19 :: pg_backend where
  "backend_v19 =
     \<lparr>composite_types = [(''caos'', ''link_endpoints_t'')],
      columns = [((''caos'', ''concept''), ''name''), ((''caos'', ''concept''), ''is_virtual''),
                 ((''caos'', ''link''), ''name''), ((''caos'', ''event''), ''allowed_actions'')],
      parents = [],
      link_rows = [\<lparr>row_id = 1, row_default = None\<rparr>,
                   \<lparr>row_id = 2, row_default = Some [''0'']\<rparr>],
      issued = []\<rparr>"

section \<open>server/pgsql/delta.py: AtomMetaCommand.alter\_atom\_type and AlterAtom.alter\_atom\<close>

text \<open>
  The schema as \<open>alter_atom_type\<close> reads it: the links with the name of their target, the
  name of their source and their normal name, and the atoms with their name, the names of
  their bases and their local constraints.
\<close>

record schema_link =
  target :: "string option"
  source :: string
  normal_name :: string

record schema_atom =
  atom_name :: string
  bases :: "string list"
  local_constraints :: "string list"

record atom_schema =
  links :: "schema_link list"
  atoms :: "schema_atom list"

text \<open>
  The name conversions of \<open>common\<close> and \<open>types.get_atom_base\<close> are not under src/:
  they are parameters.
\<close>

record atom_env =
  atom_name_to_domain_name :: "string \<Rightarrow> string \<times> string"
  get_atom_base :: "schema_atom \<Rightarrow> string"
  get_table_name :: "string \<Rightarrow> string \<times> string"
  caos_name_to_pg_name :: "string \<Rightarrow> string"
  qname :: "string \<times> string \<Rightarrow> string"

text \<open>
  The operations added to \<open>pgops\<close>: the \<open>dbops\<close> commands with their arguments. The
  command group of priority 1 that creates a constraint is named by the atom and the
  constraint; an \<open>AlterTable\<close> holds its single \<open>AlterTableAlterColumnType\<close>.
\<close>

datatype default_item = ExpressionText string | Literal string

datatype atom_op =
    RenameDomain "string \<times> string" "string \<times> string"
  | CreateDomain "string \<times> string" string
  | CreateConstraint string string
  | AlterColumnType "string \<times> string" string string
  | DropDomain "string \<times> string"
  | AlterDomainAlterDefault "string \<times> string" "default_item option"

text \<open>
  \<^verbatim>\<open>for child_atom in schema(type='atom'):
      if [b.name for b in child_atom.bases] == [atom.name]:
          self.alter_atom_type(child_atom, schema, target_type, 'alter')\<close>
  with the recursive call as an argument; an exception of a call ends the loop.
\<close>

fun alter_children ::
  "(schema_atom \<Rightarrow> atom_op list \<Rightarrow> (pyerror + atom_op list) option) \<Rightarrow> string \<Rightarrow>
   schema_atom list \<Rightarrow> atom_op list \<Rightarrow> (pyerror + atom_op list) option" where
  "alter_children rec name [] pgops = Some (Inr pgops)"
| "alter_children rec name (child_atom # rest) pgops =
     (if bases child_atom = [name] then
        (case rec child_atom pgops of
           None \<Rightarrow> None
         | Some (Inl e) \<Rightarrow> Some (Inl e)
         | Some (Inr pgops') \<Rightarrow> alter_children rec name rest pgops')
      else alter_children rec name rest pgops)"

text \<open>
  \<open>alter_atom_type\<close>, on the \<open>pgops\<close> of the command. The recursion follows the schema,
  which may be cyclic, so it is bounded by fuel: \<open>None\<close> is the call that does not return.
  The last statement reads the name \<open>simple_alter\<close>, which is bound nowhere in the module:
  when \<open>intent\<close> is \<open>'alter'\<close> the name is evaluated and NameError is raised.
\<close>

fun alter_atom_type ::
  "nat \<Rightarrow> atom_env \<Rightarrow> atom_schema \<Rightarrow> schema_atom \<Rightarrow> string \<Rightarrow> string \<Rightarrow> atom_op list \<Rightarrow>
   (pyerror + atom_op list) option" where
  "alter_atom_type 0 env schema atom new_type intent pgops = None"
| "alter_atom_type (Suc fuel) env schema atom new_type intent pgops =
     (let users = filter (\<lambda>link. target link = Some (atom_name atom)) (links schema);
          domain_name = atom_name_to_domain_name env (atom_name atom);
          new_name = (fst domain_name, snd domain_name @ ''_tmp'');
          target_type = (if intent = ''alter'' then qname env domain_name else new_type);
          pgops1 =
            (if intent = ''alter'' then
               pgops @ [RenameDomain domain_name new_name, CreateDomain domain_name new_type]
                 @ map (CreateConstraint (atom_name atom)) (local_constraints atom)
             else if intent = ''create'' then
               pgops @ [CreateDomain domain_name (get_atom_base env atom)]
             else pgops);
          domain_name' = (if intent = ''alter'' then new_name else domain_name);
          pgops2 =
            pgops1 @ map (\<lambda>link. AlterColumnType (get_table_name env (source link))
                                   (caos_name_to_pg_name env (normal_name link)) target_type) users
      in (case alter_children
                (\<lambda>child_atom ops. alter_atom_type fuel env schema child_atom target_type ''alter'' ops)
                (atom_name atom) (atoms schema) pgops2 of
            None \<Rightarrow> None
          | Some (Inl e) \<Rightarrow> Some (Inl e)
          | Some (Inr pgops3) \<Rightarrow>
              (if intent = ''drop'' then Some (Inr (pgops3 @ [DropDomain domain_name']))
               else if intent = ''alter'' then Some (Inl NameError)
               else Some (Inr pgops3))))"

text \<open>
  \<open>AlterAtom.alter_atom\<close>: \<open>new_type\<close> is the new base when it differs from the old one
  (and is a non-empty name), \<open>type_intent\<close> is \<open>'alter'\<close>; \<open>default\<close> is the new value of
  the \<open>default\<close> entry of \<open>updates\<close>, when there is one.
\<close>

definition alter_atom ::
  "nat \<Rightarrow> atom_env \<Rightarrow> atom_schema \<Rightarrow> schema_atom \<Rightarrow> schema_atom \<Rightarrow> bool \<Rightarrow>
   default_item list option \<Rightarrow> atom_op list \<Rightarrow> (pyerror + atom_op list) option" where
  "alter_atom fuel env schema old_atom new_atom in_place default_value pgops =
     (let old_base = get_atom_base env old_atom;
          base = get_atom_base env new_atom;
          domain_name = atom_name_to_domain_name env (atom_name new_atom);
          altered =
            (if old_base \<noteq> base \<and> base \<noteq> [] \<and> in_place
             then alter_atom_type fuel env schema new_atom base ''alter'' pgops
             else Some (Inr pgops))
      in (case altered of
            None \<Rightarrow> None
          | Some (Inl e) \<Rightarrow> Some (Inl e)
          | Some (Inr pgops') \<Rightarrow>
              (case default_value of
                 None \<Rightarrow> Some (Inr pgops')
               | Some [] \<Rightarrow> Some (Inr (pgops' @ [AlterDomainAlterDefault domain_name None]))
               | Some (ExpressionText e # _) \<Rightarrow>
                   Some (Inr (pgops' @ [AlterDomainAlterDefault domain_name None]))
               | Some (Literal v # _) \<Rightarrow>
                   Some (Inr (pgops' @ [AlterDomainAlterDefault domain_name (Some (Literal v))])))))"

text \<open>
  The scenario of the specification: the atom \<open>Age\<close>, used by one concept column, with
  the child atom \<open>PositiveAge\<close>, altered from \<open>int16\<close> to \<open>int32\<close>.
\<close>

definition age_env :: atom_env where
  "age_env =
     \<lparr>atom_name_to_domain_name = (\<lambda>n. (''caos_test'', n @ ''_domain'')),
      get_atom_base = (\<lambda>a. if bases a = [''int''] then ''int4'' else ''int2''),
      get_table_name = (\<lambda>n. (''caos_test'', n @ ''_data'')),
      caos_name_to_pg_name = (\<lambda>n. n),
      qname = (\<lambda>(s, n). s @ ''.'' @ n)\<rparr>"

definition age_atom :: schema_atom where
  "age_atom = \<lparr>atom_name = ''Age'', bases = [''int''], local_constraints = []\<rparr>"

definition age_schema :: atom_schema where
  "age_schema =
     \<lparr>links = [\<lparr>target = Some ''Age'', source = ''Person'', normal_name = ''age''\<rparr>],
      atoms = [age_atom,
               \<lparr>atom_name = ''PositiveAge'', bases = [''Age''], local_constraints = []\<rparr>]\<rparr>"

section \<open>server/pgsql/delta.py: CompositePrototypeMetaCommand.apply\_base\_delta\<close>
























section \<open>server/pgsql/delta.py: UpdateMappingIndexes.apply\<close>

























section \<open>Theorems: the type rule registry\<close>

subsection \<open>Dicts and the stored signatures\<close>

lemma map_of_dict_set: "map_of (dict_set d k v) = (map_of d)(k \<mapsto> v)"
  by (simp add: dict_set_def update_conv')

lemma keys_dict_set:
  "map fst (dict_set d k v) = (if k \<in> set (map fst d) then map fst d else map fst d @ [k])"
  by (simp add: dict_set_def update_keys)

lemma distinct_dict_set: "distinct (map fst d) \<Longrightarrow> distinct (map fst (dict_set d k v))"
  by (simp add: dict_set_def distinct_update)

lemma stored_add_rule:
  "stored (add_rule r op' a res) op n =
     (if op' = op \<and> length a = n then dict_set (stored r op n) a res else stored r op n)"
  by (auto simp: stored_def add_rule_def Let_def map_of_dict_set split: option.splits)

lemma stored_register_all:
  "stored (register_all regs) op n =
     foldl (\<lambda>d (a, res). dict_set d a res) [] (registered regs op n)"
proof (induction regs rule: rev_induct)
  case Nil
  show ?case by (simp add: register_all_def registered_def stored_def)
next
  case (snoc x regs)
  obtain op' a res where x: "x = (op', a, res)" by (cases x)
  have "stored (register_all (regs @ [x])) op n =
          stored (add_rule (register_all regs) op' a res) op n"
    by (simp add: register_all_def x)
  then show ?case using snoc.IH
    by (simp add: stored_add_rule registered_def x)
qed

lemma fold_set_keys:
  "map fst (foldl (\<lambda>d (k, v). dict_set d k v) [] kvs) = first_occurrences (map fst kvs)"
proof (induction kvs rule: rev_induct)
  case Nil show ?case by (simp add: first_occurrences_def)
next
  case (snoc x kvs)
  have s: "set (first_occurrences (map fst kvs)) = set (map fst kvs)"
    by (simp add: first_occurrences_def)
  show ?case using snoc.IH s
    by (cases x) (auto simp: keys_dict_set first_occurrences_def)
qed

lemma fold_set_map_of:
  "map_of (foldl (\<lambda>d (k, v). dict_set d k v) [] kvs) = map_of (rev kvs)"
  by (induction kvs rule: rev_induct) (auto simp: map_of_dict_set)

lemma fold_set_distinct:
  "distinct (map fst (foldl (\<lambda>d (k, v). dict_set d k v) [] kvs))"
  by (induction kvs rule: rev_induct) (auto simp: distinct_dict_set)

lemma arg_matches_spec: "arg_matches env arg declared = spec_position_matches env arg declared"
  by (cases arg; cases declared)
     (auto simp: arg_matches_def spec_position_matches_def is_type_def is_proper_subtype_def
        py_issubclass_def proto_issubclass_def)

lemma signature_matches_spec:
  "signature_matches env args sg = spec_signature_matches env args sg"
  by (auto simp: signature_matches_def spec_signature_matches_def list_all2_conv_all_nth
        arg_matches_spec)

lemma spec_signature_matches_list_all2:
  "spec_signature_matches env args sg = list_all2 (spec_position_matches env) args sg"
  by (auto simp: spec_signature_matches_def list_all2_conv_all_nth)

lemma signature_matches_spec_fun:
  "signature_matches env args = spec_signature_matches env args"
  by (rule ext) (rule signature_matches_spec)

lemma sig_matches_eq:
  "length sg = length args \<Longrightarrow> sig_matches env sg args = Inr (signature_matches env args sg)"
  unfolding signature_matches_def
  by (induction sg args rule: list_induct2) auto

lemma scan_rules_find:
  "\<forall>sg \<in> set (map fst d). length sg = length args \<Longrightarrow>
   scan_rules env d args =
     Inr (map_option snd (find (\<lambda>p. signature_matches env args (fst p)) d))"
  by (induction d) (auto simp: sig_matches_eq)

lemma find_keys:
  "distinct (map fst d) \<Longrightarrow>
   map_option snd (find (\<lambda>p. P (fst p)) d) =
     (case find P (map fst d) of None \<Rightarrow> None | Some k \<Rightarrow> map_of d k)"
proof (induction d)
  case Nil show ?case by simp
next
  case (Cons p d)
  show ?case
  proof (cases "P (fst p)")
    case True then show ?thesis by (cases p) simp
  next
    case False
    have "k \<noteq> fst p" if "find P (map fst d) = Some k" for k
      using that False by (auto simp: find_Some_iff)
    then show ?thesis using Cons False
      by (cases p) (auto split: option.splits)
  qed
qed

lemma get_result_stored:
  "get_result env r op args =
     (case scan_rules env (stored r op (length args)) args of
        Inl e \<Rightarrow> Inl e | Inr m \<Rightarrow> Inr (resolve_match env m))"
  by (auto simp: get_result_def stored_def Let_def split: option.splits sum.splits)

lemma registered_length: "sg \<in> set (map fst (registered regs op n)) \<Longrightarrow> length sg = n"
  by (auto simp: registered_def)

lemma get_result_spec:
  "get_result env (register_all regs) op args = Inr (spec_resolve env regs op args)"
proof -
  let ?rs = "registered regs op (length args)"
  let ?d = "stored (register_all regs) op (length args)"
  have d: "?d = foldl (\<lambda>d (a, res). dict_set d a res) [] ?rs"
    by (rule stored_register_all)
  have keys: "map fst ?d = first_occurrences (map fst ?rs)"
    unfolding d by (rule fold_set_keys)
  have mo: "map_of ?d = map_of (rev ?rs)"
    unfolding d by (rule fold_set_map_of)
  have dist: "distinct (map fst ?d)"
    unfolding d by (rule fold_set_distinct)
  have len: "\<forall>sg \<in> set (map fst ?d). length sg = length args"
  proof
    fix sg assume "sg \<in> set (map fst ?d)"
    then have "sg \<in> set (first_occurrences (map fst ?rs))" by (simp only: keys)
    then have "sg \<in> set (map fst ?rs)" by (simp add: first_occurrences_def)
    then show "length sg = length args" by (rule registered_length)
  qed
  have f: "map_option snd (find (\<lambda>p. signature_matches env args (fst p)) ?d) =
     (case find (signature_matches env args) (map fst ?d) of
            None \<Rightarrow> None | Some sg \<Rightarrow> map_of ?d sg)"
    using dist by (rule find_keys)
  have sc: "scan_rules env ?d args =
     Inr (map_option snd (find (\<lambda>p. signature_matches env args (fst p)) ?d))"
    using len by (rule scan_rules_find)
  have "get_result env (register_all regs) op args =
     Inr (resolve_match env (case find (signature_matches env args) (map fst ?d) of
            None \<Rightarrow> None | Some sg \<Rightarrow> map_of ?d sg))"
    by (simp only: get_result_stored sc f sum.case)
  also have "\<dots> = Inr (spec_resolve env regs op args)"
    by (simp only: keys mo spec_resolve_def Let_def signature_matches_spec_fun)
       (simp add: resolve_match_def split: option.splits)
  finally show ?thesis .
qed


lemma dict_set_twice: "dict_set (dict_set d k v) k v' = dict_set d k v'"
  unfolding dict_set_def by (induction d) auto

lemma add_rule_twice:
  "add_rule (add_rule r op args r1) op args r2 = add_rule r op args r2"
  by (simp add: add_rule_def Let_def map_of_dict_set dict_set_twice)

lemma find_unique:
  "x \<in> set xs \<Longrightarrow> P x \<Longrightarrow> (\<And>y. y \<in> set xs \<Longrightarrow> y \<noteq> x \<Longrightarrow> \<not> P y) \<Longrightarrow> find P xs = Some x"
  by (induction xs) auto

lemma set_first_occurrences: "set (first_occurrences xs) = set xs"
  by (simp add: first_occurrences_def)

lemma registered_append:
  "registered (regs @ regs') op n = registered regs op n @ registered regs' op n"
  by (simp add: registered_def)

lemma signature_matches_same:
  "(\<And>a. a \<in> set args \<Longrightarrow> arg_matches env a a) \<Longrightarrow> signature_matches env args args"
  by (simp add: signature_matches_def list_all2_same)

lemma same_key_last_wins:
  assumes refl: "\<forall>a \<in> set args. arg_matches env a a"
    and others: "\<forall>sg \<in> set (map fst (registered regs op (length args))).
                   sg \<noteq> args \<longrightarrow> \<not> signature_matches env args sg"
  shows "get_result env (register_all (regs @ [(op, args, r1), (op, args, r2)])) op args =
           Inr (resolve_match env (Some r2))"
proof -
  let ?rs = "registered (regs @ [(op, args, r1), (op, args, r2)]) op (length args)"
  have rs: "?rs = registered regs op (length args) @ [(args, r1), (args, r2)]"
    by (simp add: registered_append) (simp add: registered_def)
  have m: "signature_matches env args args"
    using refl by (intro signature_matches_same) simp
  have "find (signature_matches env args) (first_occurrences (map fst ?rs)) = Some args"
  proof (rule find_unique)
    show "args \<in> set (first_occurrences (map fst ?rs))"
      by (simp add: set_first_occurrences rs)
    show "signature_matches env args args" by (rule m)
    fix y assume "y \<in> set (first_occurrences (map fst ?rs))" "y \<noteq> args"
    then have "y \<in> set (map fst (registered regs op (length args)))"
      by (auto simp: set_first_occurrences rs)
    with others \<open>y \<noteq> args\<close> show "\<not> signature_matches env args y" by blast
  qed
  moreover have "map_of (rev ?rs) args = Some r2"
    by (simp add: rs)
  ultimately have "spec_resolve env (regs @ [(op, args, r1), (op, args, r2)]) op args =
      resolve_match env (Some r2)"
    by (simp add: spec_resolve_def Let_def signature_matches_spec_fun)
  then show ?thesis by (simp add: get_result_spec)
qed

lemma first_occurrences_snoc:
  "first_occurrences (xs @ [a]) =
     (if a \<in> set xs then first_occurrences xs else first_occurrences xs @ [a])"
  by (simp add: first_occurrences_def)

lemma find_append_None: "find P xs = None \<Longrightarrow> find P (xs @ ys) = find P ys"
  by (induction xs) (auto split: if_splits)

lemma distinct_keys_first_wins:
  assumes ne: "a1 \<noteq> a2"
    and m1: "signature_matches env args a1" and m2: "signature_matches env args a2"
    and others: "\<forall>sg \<in> set (map fst (registered regs op (length args))).
                   \<not> signature_matches env args sg"
  shows "get_result env (register_all (regs @ [(op, a1, r1), (op, a2, r2)])) op args =
           Inr (resolve_match env (Some r1))"
proof -
  let ?R = "registered regs op (length args)"
  let ?rs = "registered (regs @ [(op, a1, r1), (op, a2, r2)]) op (length args)"
  have l1: "length a1 = length args" and l2: "length a2 = length args"
    using m1 m2 by (auto simp: signature_matches_def dest: list_all2_lengthD)
  have rs: "?rs = ?R @ [(a1, r1), (a2, r2)]"
    by (simp add: registered_append) (simp add: registered_def l1 l2)
  have n1: "a1 \<notin> set (map fst ?R)" and n2: "a2 \<notin> set (map fst ?R)"
    using others m1 m2 by blast+
  have "map fst ?rs = (map fst ?R @ [a1]) @ [a2]" by (simp add: rs)
  then have fo: "first_occurrences (map fst ?rs) = first_occurrences (map fst ?R) @ [a1, a2]"
    using n1 n2 ne by (simp add: first_occurrences_snoc del: append_assoc)
  have none: "find (signature_matches env args) (first_occurrences (map fst ?R)) = None"
    using others by (simp add: find_None_iff set_first_occurrences)
  have "find (signature_matches env args) (first_occurrences (map fst ?rs)) = Some a1"
    unfolding fo using find_append_None [OF none] m1 by simp
  moreover have "map_of (rev ?rs) a1 = Some r1"
    using ne by (simp add: rs)
  ultimately have "spec_resolve env (regs @ [(op, a1, r1), (op, a2, r2)]) op args =
      resolve_match env (Some r1)"
    by (simp add: spec_resolve_def Let_def signature_matches_spec_fun)
  then show ?thesis by (simp add: get_result_spec)
qed

lemma no_match_none:
  assumes "\<forall>sg \<in> set (map fst (registered regs op (length args))).
             \<not> spec_signature_matches env args sg"
  shows "get_result env (register_all regs) op args = Inr None"
proof -
  have "find (spec_signature_matches env args)
          (first_occurrences (map fst (registered regs op (length args)))) = None"
    using assms by (simp add: find_None_iff set_first_occurrences)
  then show ?thesis
    by (simp add: get_result_spec spec_resolve_def Let_def)
qed

lemma example_integer:
  "get_result env (register_all example_rules)
     ''+'' [PyClass ''IntegerType'', PyClass ''IntegerType'']
   = Inr (Some (ResObj (PyClass ''IntegerType'')))"
  by (simp add: example_rules_def register_all_def add_rule_def dict_set_def get_result_def Let_def
        arg_matches_def py_issubclass_def resolve_match_def)

lemma example_number:
  "get_result example_env (register_all example_rules)
     ''+'' [PyClass ''NumberType'', PyClass ''NumberType'']
   = Inr (Some (ResObj (PyClass ''NumberType'')))"
  by (simp add: example_rules_def example_env_def register_all_def add_rule_def dict_set_def
        get_result_def Let_def arg_matches_def py_issubclass_def resolve_match_def)

lemma example_supertype_first:
  "get_result example_env (register_all (rev example_rules))
     ''+'' [PyClass ''IntegerType'', PyClass ''IntegerType'']
   = Inr (Some (ResObj (PyClass ''NumberType'')))"
  by (simp add: example_rules_def example_env_def register_all_def add_rule_def dict_set_def
        get_result_def Let_def arg_matches_def py_issubclass_def resolve_match_def)

lemma example_no_match:
  "get_result example_env (register_all [hd example_rules])
     ''+'' [PyClass ''NumberType'', PyClass ''NumberType'']
   = Inr None"
  by (simp add: example_rules_def example_env_def register_all_def add_rule_def dict_set_def
        get_result_def Let_def arg_matches_def py_issubclass_def resolve_match_def)


subsection \<open>Resolution\<close>

text \<open>
  C7. For every sequence of registrations, every operator and every list of argument
  types, \<open>get_result\<close> raises nothing and returns what the specification describes: the
  distinct signatures registered for the operator and the arity are scanned in the order
  of their first registration, a signature matches when at every position the actual
  argument type is the declared type or a proper subtype of it in the class hierarchy or
  the schema, and the result of the first matching signature is returned, a name being
  looked up in the schema. When no signature matches, the result is \<open>None\<close>. After
  registering \<open>(+, [IntegerType, IntegerType]) -> IntegerType\<close> and then
  \<open>(+, [NumberType, NumberType]) -> NumberType\<close>, resolving
  \<open>(+, [IntegerType, IntegerType])\<close> returns \<open>IntegerType\<close> in every hierarchy; with
  \<open>IntegerType\<close> a subclass of \<open>NumberType\<close>, resolving \<open>(+, [NumberType, NumberType])\<close>
  returns \<open>NumberType\<close>, the same resolution finds nothing when only the first rule is
  registered, and with the two rules registered in the opposite order resolving
  \<open>(+, [IntegerType, IntegerType])\<close> returns \<open>NumberType\<close>.
\<close>

theorem get_result_first_match:
  "get_result env (register_all regs) op args = Inr (spec_resolve env regs op args)
   \<and> ((\<forall>sg \<in> set (map fst (registered regs op (length args))).
          \<not> spec_signature_matches env args sg)
        \<longrightarrow> get_result env (register_all regs) op args = Inr None)
   \<and> get_result env (register_all example_rules)
        ''+'' [PyClass ''IntegerType'', PyClass ''IntegerType'']
       = Inr (Some (ResObj (PyClass ''IntegerType'')))
   \<and> get_result example_env (register_all example_rules)
        ''+'' [PyClass ''NumberType'', PyClass ''NumberType'']
       = Inr (Some (ResObj (PyClass ''NumberType'')))
   \<and> get_result example_env (register_all [hd example_rules])
        ''+'' [PyClass ''NumberType'', PyClass ''NumberType'']
       = Inr None
   \<and> get_result example_env (register_all (rev example_rules))
        ''+'' [PyClass ''IntegerType'', PyClass ''IntegerType'']
       = Inr (Some (ResObj (PyClass ''NumberType'')))"
  using get_result_spec [of env regs op args] no_match_none [of regs op args env]
    example_integer [of env] example_number example_no_match example_supertype_first
  by blast

theorem get_result_first_match_witness:
  "\<not> spec_signature_matches example_env [PyClass ''NumberType'', PyClass ''NumberType'']
        [PyClass ''IntegerType'', PyClass ''IntegerType'']
   \<and> spec_signature_matches example_env [PyClass ''IntegerType'', PyClass ''IntegerType'']
        [PyClass ''NumberType'', PyClass ''NumberType'']
   \<and> get_result example_env (register_all [hd example_rules])
        ''+'' [PyClass ''NumberType'', PyClass ''NumberType'']
       = Inr None
   \<and> spec_resolve example_env (rev example_rules)
        ''+'' [PyClass ''IntegerType'', PyClass ''IntegerType'']
       = Some (ResObj (PyClass ''NumberType''))"
proof -
  have 1: "\<not> spec_signature_matches example_env [PyClass ''NumberType'', PyClass ''NumberType'']
        [PyClass ''IntegerType'', PyClass ''IntegerType'']"
    by (simp add: spec_signature_matches_list_all2 spec_position_matches_def is_type_def
          is_proper_subtype_def example_env_def)
  have 2: "spec_signature_matches example_env [PyClass ''IntegerType'', PyClass ''IntegerType'']
        [PyClass ''NumberType'', PyClass ''NumberType'']"
    by (simp add: spec_signature_matches_list_all2 spec_position_matches_def is_type_def
          is_proper_subtype_def example_env_def)
  have 3: "\<forall>sg \<in> set (map fst (registered [hd example_rules] ''+''
                (length [PyClass ''NumberType'', PyClass ''NumberType'']))).
            \<not> spec_signature_matches example_env
                [PyClass ''NumberType'', PyClass ''NumberType''] sg"
    using 1 by (simp add: registered_def example_rules_def)
  from get_result_first_match [of example_env "[hd example_rules]" "''+''"
          "[PyClass ''NumberType'', PyClass ''NumberType'']"] 3
  have 4: "get_result example_env (register_all [hd example_rules])
        ''+'' [PyClass ''NumberType'', PyClass ''NumberType''] = Inr None"
    by blast
  have 5: "spec_resolve example_env (rev example_rules)
        ''+'' [PyClass ''IntegerType'', PyClass ''IntegerType'']
       = Some (ResObj (PyClass ''NumberType''))"
  proof -
    from get_result_first_match [of example_env "rev example_rules" "''+''"
          "[PyClass ''IntegerType'', PyClass ''IntegerType'']"]
    have a: "get_result example_env (register_all (rev example_rules))
               ''+'' [PyClass ''IntegerType'', PyClass ''IntegerType'']
             = Inr (spec_resolve example_env (rev example_rules)
                      ''+'' [PyClass ''IntegerType'', PyClass ''IntegerType''])"
      and b: "get_result example_env (register_all (rev example_rules))
               ''+'' [PyClass ''IntegerType'', PyClass ''IntegerType'']
             = Inr (Some (ResObj (PyClass ''NumberType'')))"
      by blast+
    from a b show ?thesis by (simp only: sum.inject)
  qed
  from 1 2 4 5 show ?thesis by blast
qed

text \<open>
  C10. Two registrations with the same operator and the same argument types are stored
  under one key: the registry after both is the registry after the second alone. When the
  argument types match themselves and no other registered signature matches them,
  resolving exactly these argument types returns the later result. Two registrations with
  distinct matching signatures are ordered by registration: the earlier one wins.
\<close>

theorem add_rule_same_key_replaces:
  "add_rule (add_rule r op args r1) op args r2 = add_rule r op args r2
   \<and> ((\<forall>a \<in> set args. arg_matches env a a)
        \<and> (\<forall>sg \<in> set (map fst (registered regs op (length args))).
              sg \<noteq> args \<longrightarrow> \<not> signature_matches env args sg)
        \<longrightarrow> get_result env (register_all (regs @ [(op, args, r1), (op, args, r2)])) op args
            = Inr (resolve_match env (Some r2)))
   \<and> (a1 \<noteq> a2 \<and> signature_matches env args a1 \<and> signature_matches env args a2
        \<and> (\<forall>sg \<in> set (map fst (registered regs op (length args))).
              \<not> signature_matches env args sg)
        \<longrightarrow> get_result env (register_all (regs @ [(op, a1, r1), (op, a2, r2)])) op args
            = Inr (resolve_match env (Some r1)))"
  using add_rule_twice same_key_last_wins distinct_keys_first_wins by blast

theorem add_rule_same_key_replaces_witness:
  "get_result example_env
      (register_all ([] @ [(''+'', [PyClass ''IntegerType''], ResObj (PyClass ''IntegerType'')),
                           (''+'', [PyClass ''IntegerType''], ResObj (PyClass ''NumberType''))]))
      ''+'' [PyClass ''IntegerType'']
     = Inr (Some (ResObj (PyClass ''NumberType'')))
   \<and> get_result example_env
      (register_all ([] @ [(''+'', [PyClass ''IntegerType''], ResObj (PyClass ''IntegerType'')),
                           (''+'', [PyClass ''NumberType''], ResObj (PyClass ''NumberType''))]))
      ''+'' [PyClass ''IntegerType'']
     = Inr (Some (ResObj (PyClass ''IntegerType'')))"
  using add_rule_same_key_replaces [of "[]" "''+''" "[PyClass ''IntegerType'']"
          "ResObj (PyClass ''IntegerType'')" "ResObj (PyClass ''NumberType'')" example_env "[]"
          "[PyClass ''IntegerType'']" "[PyClass ''NumberType'']"]
  by (simp add: example_env_def registered_def signature_matches_def arg_matches_def
        py_issubclass_def resolve_match_def)

section \<open>Theorems: pointer storage\<close>

text \<open>
  C9. A purely computable link never has a table of its own: \<open>has_table\<close> is false whatever
  the link's genericity, cardinality, target kind and properties are.
\<close>

theorem has_table_pure_computable:
  "is_pure_computable l \<Longrightarrow> \<not> has_table table_type children l"
  by (simp add: has_table_def)

theorem has_table_pure_computable_witness:
  "is_pure_computable \<lparr>link_name = ''test.owns'', is_pure_computable = True, generic = False,
      has_user_defined_properties = True, atomic = False, singular = False\<rparr>
   \<and> \<not> has_table (\<lambda>_. ''link'') (\<lambda>_. [])
        \<lparr>link_name = ''test.owns'', is_pure_computable = True, generic = False,
         has_user_defined_properties = True, atomic = False, singular = False\<rparr>"
  using has_table_pure_computable [of "\<lparr>link_name = ''test.owns'', is_pure_computable = True,
      generic = False, has_user_defined_properties = True, atomic = False, singular = False\<rparr>"
      "\<lambda>_. ''link''" "\<lambda>_. []"]
  by simp

text \<open>
  C5. A purely computable link that is neither generic nor singular has no table of its
  own: for it \<open>has_table\<close> is false although the link is not singular.
\<close>

theorem has_table_non_singular_counterexample:
  "\<not> generic \<lparr>link_name = ''test.friends'', is_pure_computable = True, generic = False,
        has_user_defined_properties = False, atomic = False, singular = False\<rparr>
   \<and> \<not> singular \<lparr>link_name = ''test.friends'', is_pure_computable = True, generic = False,
        has_user_defined_properties = False, atomic = False, singular = False\<rparr>
   \<and> \<not> has_table (\<lambda>_. ''link'') (\<lambda>_. [])
        \<lparr>link_name = ''test.friends'', is_pure_computable = True, generic = False,
         has_user_defined_properties = False, atomic = False, singular = False\<rparr>"
  by (simp add: has_table_def)

text \<open>
  C5, amended. For every pointer that is neither generic nor purely computable,
  \<open>has_table\<close> is false (the pointer is a plain column of its owner's table) exactly when
  the pointer is atomic, singular and defines no properties of its own; in particular
  every such pointer that is not singular has a table of its own.
\<close>

theorem has_table_non_generic:
  "\<not> is_pure_computable l \<Longrightarrow> \<not> generic l \<Longrightarrow>
   (\<not> has_table table_type children l
      \<longleftrightarrow> atomic l \<and> singular l \<and> \<not> has_user_defined_properties l)
   \<and> (\<not> singular l \<longrightarrow> has_table table_type children l)"
  by (auto simp: has_table_def)

theorem has_table_non_generic_witness:
  "\<not> is_pure_computable \<lparr>link_name = ''test.friends'', is_pure_computable = False,
        generic = False, has_user_defined_properties = False, atomic = False, singular = False\<rparr>
   \<and> has_table (\<lambda>_. ''concept'') (\<lambda>_. [])
        \<lparr>link_name = ''test.friends'', is_pure_computable = False, generic = False,
         has_user_defined_properties = False, atomic = False, singular = False\<rparr>
   \<and> \<not> has_table (\<lambda>_. ''concept'') (\<lambda>_. [])
        \<lparr>link_name = ''test.name'', is_pure_computable = False, generic = False,
         has_user_defined_properties = False, atomic = True, singular = True\<rparr>"
  using has_table_non_generic [of "\<lparr>link_name = ''test.friends'', is_pure_computable = False,
        generic = False, has_user_defined_properties = False, atomic = False, singular = False\<rparr>"
        "\<lambda>_. ''concept''" "\<lambda>_. []"]
    has_table_non_generic [of "\<lparr>link_name = ''test.name'', is_pure_computable = False,
        generic = False, has_user_defined_properties = False, atomic = True, singular = True\<rparr>"
        "\<lambda>_. ''concept''" "\<lambda>_. []"]
  by simp

section \<open>Theorems: the execution order of a realm delta\<close>




















section \<open>Theorems: the backend upgrade chain\<close>

lemma update_to_version_20_raises:
  "list_ex has_default_item (link_rows b) \<Longrightarrow> update_to_version env 20 b = Inl NameError"
  by (simp add: update_to_version_def update_to_version_20_def)

text \<open>
  C3. From the persisted format version 19, on a backend in which a link has a default,
  \<open>UpgradeBackend.execute\<close> raises NameError in step 20, whatever the other steps do:
  the steps 21 to 30 do not run and the format version is not persisted.
\<close>

theorem upgrade_execute_stops_at_step_20:
  "upgrade_execute env 19 \<lparr>backend = backend_v19, format_version = 19, announced = []\<rparr>
     = Inl NameError"
proof -
  have r: "list_ex has_default_item (link_rows backend_v19)"
    by (simp add: backend_v19_def has_default_item_def)
  have u: "[19 ..< BACKEND_FORMAT_VERSION] = 19 # [20 ..< 30]"
    by (simp add: BACKEND_FORMAT_VERSION_def upt_rec [of 19])
  show ?thesis
    unfolding upgrade_execute_def u
    by (simp add: update_to_version_20_raises [OF r])
qed

text \<open>
  C4. \<open>update_to_version_30\<close> carries no existence check: run on a backend that already
  has the column \<open>spectargets\<close> of \<open>caos.link\<close> and no column \<open>is_virtual\<close> of
  \<open>caos.concept\<close>, it issues both of its statements again. \<open>update_to_version_2\<close>, on the
  same backend, where its composite type exists, issues nothing.
\<close>

theorem update_to_version_30_reissues:
  "((''caos'', ''link''), ''spectargets'') \<in> set (columns backend_v30)
   \<and> ((''caos'', ''concept''), ''is_virtual'') \<notin> set (columns backend_v30)
   \<and> issued (update_to_version_30 backend_v30) =
       [AlterTableStmt (''caos'', ''link'')
          [AlterTableAddColumn
             \<lparr>col_name = ''spectargets'', col_type = ''text[]'', col_required = False\<rparr>],
        AlterTableStmt (''caos'', ''concept'')
          [AlterTableDropColumn
             \<lparr>col_name = ''is_virtual'', col_type = ''bool'', col_required = False\<rparr>]]
   \<and> issued (update_to_version_2 (''caos'', ''link_endpoints_t'') backend_v30) = []"
  by (simp add: backend_v30_def update_to_version_30_def update_to_version_2_def
        group_execute_def guards_pass_def)

section \<open>Theorems: the type-change migration\<close>

lemma alter_atom_type_alter_no_return:
  "alter_atom_type fuel env schema atom new_type ''alter'' pgops \<noteq> Some (Inr ops)"
proof (cases fuel)
  case 0 then show ?thesis by simp
next
  case (Suc n)
  then show ?thesis
    by (auto simp: Let_def split: option.splits sum.splits)
qed

text \<open>
  C2. Altering the base type of the atom \<open>Age\<close>, which one concept column uses and from
  which the atom \<open>PositiveAge\<close> derives, raises NameError instead of returning the
  operations of the migration; and for no atom, schema and \<open>pgops\<close> does
  \<open>alter_atom_type\<close> with intent \<open>'alter'\<close> return normally, so the drop of the renamed
  old domain is never emitted.
\<close>

theorem alter_atom_type_raises_name_error:
  "alter_atom_type 3 age_env age_schema age_atom ''int4'' ''alter'' [] = Some (Inl NameError)
   \<and> alter_atom 3 age_env age_schema
        \<lparr>atom_name = ''Age'', bases = [''short''], local_constraints = []\<rparr> age_atom True None []
       = Some (Inl NameError)
   \<and> (\<forall>fuel env schema atom new_type pgops ops.
         alter_atom_type fuel env schema atom new_type ''alter'' pgops \<noteq> Some (Inr ops))"
proof -
  have "alter_atom_type (Suc (Suc (Suc 0))) age_env age_schema age_atom ''int4'' ''alter'' []
          = Some (Inl NameError)"
    by (simp add: age_env_def age_schema_def age_atom_def Let_def)
  then have 1: "alter_atom_type 3 age_env age_schema age_atom ''int4'' ''alter'' []
          = Some (Inl NameError)"
    by (simp add: numeral_3_eq_3)
  show ?thesis
    using 1 alter_atom_type_alter_no_return
    by (simp add: alter_atom_def Let_def age_env_def age_atom_def)
qed

section \<open>Theorems: the inheritance delta\<close>





























section \<open>Theorems: the mapping indexes\<close>



















end
